theory Spec2Isabelle
  imports Complex_Main
begin

section \<open>Python floats\<close>

text \<open>
  The numbers of \<^verbatim>\<open>simulation.py\<close> are IEEE doubles of one of two Python classes. The
  module constants, the float literals and \<^verbatim>\<open>np.inf\<close> are plain \<^verbatim>\<open>float\<close> objects; the
  fill index that \<^verbatim>\<open>minimize_scalar\<close> passes to \<^verbatim>\<open>error_function\<close> is a
  \<^verbatim>\<open>numpy.float64\<close>. The class matters: \<^verbatim>\<open>numpy.float64\<close> is a subclass of \<^verbatim>\<open>float\<close>,
  so an operation with at least one \<^verbatim>\<open>numpy.float64\<close> operand is numpy's and gives a
  \<^verbatim>\<open>numpy.float64\<close>: a division by zero then gives an infinity or nan (with a
  \<^verbatim>\<open>RuntimeWarning\<close> on the error stream, which is no exception), where the division of
  two plain floats raises \<^verbatim>\<open>ZeroDivisionError\<close>.

  The value of a double is modelled as an exact real number, a negative zero, an
  infinity or nan; \<open>Finite 0\<close> is the positive zero. Rounding, underflow and overflow to
  an infinity are left out: the arithmetic on finite values is exact. The one overflow
  that is kept is the one that changes the control flow, the \<^verbatim>\<open>OverflowError\<close> of a
  plain float's \<^verbatim>\<open>** 2\<close>.
\<close>

datatype pyclass = PyFloat | NpFloat64

datatype fval = Finite real | NegZero | PosInf | NegInf | NotANumber

datatype pyfloat = Num pyclass fval

datatype error = ZeroDivisionError | OverflowError | KeyError | TypeError

text \<open>The plain floats.\<close>

abbreviation Fin :: "real \<Rightarrow> pyfloat" where
  "Fin a \<equiv> Num PyFloat (Finite a)"

abbreviation PInf :: pyfloat where
  "PInf \<equiv> Num PyFloat PosInf"

abbreviation NInf :: pyfloat where
  "NInf \<equiv> Num PyFloat NegInf"

abbreviation NaN :: pyfloat where
  "NaN \<equiv> Num PyFloat NotANumber"

subsection \<open>Values\<close>

fun is_nan :: "fval \<Rightarrow> bool" where
  "is_nan NotANumber = True"
| "is_nan _ = False"

fun is_inf :: "fval \<Rightarrow> bool" where
  "is_inf PosInf = True"
| "is_inf NegInf = True"
| "is_inf _ = False"

fun is_zero :: "fval \<Rightarrow> bool" where
  "is_zero (Finite a) = (a = 0)"
| "is_zero NegZero = True"
| "is_zero _ = False"

text \<open>The sign bit (of a value that is not nan).\<close>

fun negative :: "fval \<Rightarrow> bool" where
  "negative (Finite a) = (a < 0)"
| "negative NegZero = True"
| "negative NegInf = True"
| "negative _ = False"

fun real_of :: "fval \<Rightarrow> real" where
  "real_of (Finite a) = a"
| "real_of _ = 0"

definition zero_of :: "bool \<Rightarrow> fval" where
  "zero_of neg = (if neg then NegZero else Finite 0)"

definition inf_of :: "bool \<Rightarrow> fval" where
  "inf_of neg = (if neg then NegInf else PosInf)"

fun vneg :: "fval \<Rightarrow> fval" where
  "vneg (Finite a) = (if a = 0 then NegZero else Finite (- a))"
| "vneg NegZero = Finite 0"
| "vneg PosInf = NegInf"
| "vneg NegInf = PosInf"
| "vneg NotANumber = NotANumber"

fun vabs :: "fval \<Rightarrow> fval" where
  "vabs (Finite a) = Finite \<bar>a\<bar>"
| "vabs NegZero = Finite 0"
| "vabs PosInf = PosInf"
| "vabs NegInf = PosInf"
| "vabs NotANumber = NotANumber"

text \<open>
  Addition: opposite infinities give nan; a sum that is zero is the positive zero,
  unless both terms are negative zeros.
\<close>

fun vadd :: "fval \<Rightarrow> fval \<Rightarrow> fval" where
  "vadd (Finite a) (Finite b) = Finite (a + b)"
| "vadd NotANumber _ = NotANumber"
| "vadd _ NotANumber = NotANumber"
| "vadd PosInf NegInf = NotANumber"
| "vadd NegInf PosInf = NotANumber"
| "vadd PosInf _ = PosInf"
| "vadd NegInf _ = NegInf"
| "vadd _ PosInf = PosInf"
| "vadd _ NegInf = NegInf"
| "vadd NegZero NegZero = NegZero"
| "vadd NegZero (Finite b) = Finite b"
| "vadd (Finite a) NegZero = Finite a"

text \<open>
  Multiplication: the sign of the product is the exclusive or of the signs; zero times
  an infinity is nan.
\<close>

definition vmul :: "fval \<Rightarrow> fval \<Rightarrow> fval" where
  "vmul x y =
     (if is_nan x \<or> is_nan y then NotANumber
      else if is_inf x \<or> is_inf y then
        (if is_zero x \<or> is_zero y then NotANumber else inf_of (negative x \<noteq> negative y))
      else if is_zero x \<or> is_zero y then zero_of (negative x \<noteq> negative y)
      else Finite (real_of x * real_of y))"

text \<open>
  IEEE division, as numpy performs it: a nonzero number over a zero is an infinity, zero
  over zero and an infinity over an infinity are nan, a finite number over an infinity is
  a zero; the sign is the exclusive or of the signs.
\<close>

definition vdiv :: "fval \<Rightarrow> fval \<Rightarrow> fval" where
  "vdiv x y =
     (if is_nan x \<or> is_nan y then NotANumber
      else if is_inf x then
        (if is_inf y then NotANumber else inf_of (negative x \<noteq> negative y))
      else if is_inf y then zero_of (negative x \<noteq> negative y)
      else if is_zero y then
        (if is_zero x then NotANumber else inf_of (negative x \<noteq> negative y))
      else if is_zero x then zero_of (negative x \<noteq> negative y)
      else Finite (real_of x / real_of y))"

text \<open>
  A square is out of the double range when it rounds to \<open>2 ^ 1024\<close>, that is from the
  midpoint between the largest double \<open>2 ^ 1024 - 2 ^ 971\<close> and \<open>2 ^ 1024\<close> on.
\<close>

definition square_overflows :: "real \<Rightarrow> bool" where
  "square_overflows a \<longleftrightarrow> 2 ^ 1024 - 2 ^ 970 \<le> a ^ 2"

subsection \<open>Operations on Python objects\<close>

definition join :: "pyclass \<Rightarrow> pyclass \<Rightarrow> pyclass" where
  "join c d = (if c = NpFloat64 \<or> d = NpFloat64 then NpFloat64 else PyFloat)"

fun fval_of :: "pyfloat \<Rightarrow> fval" where
  "fval_of (Num c x) = x"

fun class_of :: "pyfloat \<Rightarrow> pyclass" where
  "class_of (Num c x) = c"

text \<open>\<^verbatim>\<open>math.isinf\<close>.\<close>

fun isinf :: "pyfloat \<Rightarrow> bool" where
  "isinf (Num c x) = is_inf x"

fun fneg :: "pyfloat \<Rightarrow> pyfloat" where
  "fneg (Num c x) = Num c (vneg x)"

fun fabs :: "pyfloat \<Rightarrow> pyfloat" where
  "fabs (Num c x) = Num c (vabs x)"

fun fadd :: "pyfloat \<Rightarrow> pyfloat \<Rightarrow> pyfloat" where
  "fadd (Num c x) (Num d y) = Num (join c d) (vadd x y)"

definition fsub :: "pyfloat \<Rightarrow> pyfloat \<Rightarrow> pyfloat" where
  "fsub a b = fadd a (fneg b)"

fun fmul :: "pyfloat \<Rightarrow> pyfloat \<Rightarrow> pyfloat" where
  "fmul (Num c x) (Num d y) = Num (join c d) (vmul x y)"

text \<open>
  \<^verbatim>\<open>x / y\<close>: two plain floats with a zero divisor raise \<^verbatim>\<open>ZeroDivisionError\<close>, whatever
  the dividend is; every other division is the IEEE one.
\<close>

fun fdiv :: "pyfloat \<Rightarrow> pyfloat \<Rightarrow> error + pyfloat" where
  "fdiv (Num c x) (Num d y) =
     (if join c d = PyFloat \<and> is_zero y then Inl ZeroDivisionError
      else Inr (Num (join c d) (vdiv x y)))"

text \<open>
  \<^verbatim>\<open>x ** 2\<close>: a plain float whose square is out of range raises \<^verbatim>\<open>OverflowError\<close>; a
  \<^verbatim>\<open>numpy.float64\<close> gives the infinity.
\<close>

fun fpow2 :: "pyfloat \<Rightarrow> error + pyfloat" where
  "fpow2 (Num c (Finite a)) =
     (if square_overflows a then
        (if c = PyFloat then Inl OverflowError else Inr (Num c PosInf))
      else Inr (Num c (Finite (a ^ 2))))"
| "fpow2 (Num c NegZero) = Inr (Num c (Finite 0))"
| "fpow2 (Num c NotANumber) = Inr (Num c NotANumber)"
| "fpow2 (Num c _) = Inr (Num c PosInf)"

section \<open>Adjustable parameters\<close>

definition n_air :: pyfloat where
  "n_air = Fin 1"

definition n_plexi :: pyfloat where
  "n_plexi = Fin (1491 / 1000)"

definition R_outer :: pyfloat where
  "R_outer = Fin 30"

definition R_inner :: pyfloat where
  "R_inner = Fin 27"

definition wall_thickness :: pyfloat where
  "wall_thickness = Fin 3"

definition partition_thickness :: pyfloat where
  "partition_thickness = Fin 2"

definition cavity_thickness :: pyfloat where
  "cavity_thickness = Fin 26"

definition f_measured :: "(string \<times> pyfloat) list" where
  "f_measured =
     [(''empty'', Fin (- 500)), (''one_filled'', Fin 132), (''both_filled'', Fin 55)]"

section \<open>Paraxial tracing\<close>

text \<open>
  \<^verbatim>\<open>refract(n1, n2, R, s)\<close>: the image distance after refraction at one surface. The
  test \<^verbatim>\<open>s == np.inf\<close> compares values, whatever the class of \<open>s\<close>, and the branch
  returns the plain float \<^verbatim>\<open>np.inf\<close>. The subexpressions are evaluated left to right,
  and the first exception ends the call.
\<close>

definition refract :: "pyfloat \<Rightarrow> pyfloat \<Rightarrow> pyfloat \<Rightarrow> pyfloat \<Rightarrow> error + pyfloat" where
  "refract n1 n2 R s =
     (if isinf R then
        (if fval_of s = PosInf then Inr PInf
         else (case fdiv n2 n1 of
                 Inl e \<Rightarrow> Inl e
               | Inr q \<Rightarrow> Inr (fmul q s)))
      else if fval_of s = PosInf then fdiv (fmul n2 R) (fsub n2 n1)
      else (case fdiv (fsub n2 n1) (fmul n2 R) of
              Inl e \<Rightarrow> Inl e
            | Inr a \<Rightarrow>
                (case fdiv n1 (fmul n2 s) of
                   Inl e \<Rightarrow> Inl e
                 | Inr b \<Rightarrow> fdiv (Fin 1) (fsub a b))))"

text \<open>A surface is the dictionary with the keys \<^verbatim>\<open>n1\<close>, \<^verbatim>\<open>n2\<close>, \<^verbatim>\<open>R\<close>, \<^verbatim>\<open>t\<close>.\<close>

record surface =
  n1 :: pyfloat
  n2 :: pyfloat
  R :: pyfloat
  t :: pyfloat

text \<open>
  \<^verbatim>\<open>trace_system\<close>: the loop over \<^verbatim>\<open>enumerate(surfaces)\<close>, with the length of the whole
  list, the running index, the surfaces still to visit and the object distance. The
  result is a float, or Python's \<^verbatim>\<open>None\<close> when the loop ends without returning.
\<close>

fun trace_loop :: "nat \<Rightarrow> nat \<Rightarrow> surface list \<Rightarrow> pyfloat \<Rightarrow> error + pyfloat option" where
  "trace_loop len i [] s = Inr None"
| "trace_loop len i (surf # rest) s =
     (case refract (n1 surf) (n2 surf) (R surf) s of
        Inl e \<Rightarrow> Inl e
      | Inr s_prime \<Rightarrow>
          if int i = int len - 1 then Inr (Some s_prime)
          else trace_loop len (i + 1) rest (fsub (t surf) s_prime))"

definition trace_system :: "surface list \<Rightarrow> error + pyfloat option" where
  "trace_system surfaces = trace_loop (length surfaces) 0 surfaces PInf"

section \<open>Optical systems\<close>

definition mk_surface :: "pyfloat \<Rightarrow> pyfloat \<Rightarrow> pyfloat \<Rightarrow> pyfloat \<Rightarrow> surface" where
  "mk_surface a b r d = \<lparr>n1 = a, n2 = b, R = r, t = d\<rparr>"

text \<open>
  \<^verbatim>\<open>build_systems\<close>: the dictionary of the three systems, in insertion order. The last
  surface's \<^verbatim>\<open>t\<close> is the integer \<^verbatim>\<open>0\<close> in the source; it is never read by the tracer.
\<close>

definition build_systems :: "pyfloat \<Rightarrow> (string \<times> surface list) list" where
  "build_systems n_water =
     [(''empty'',
        [mk_surface n_air n_plexi R_outer wall_thickness,
         mk_surface n_plexi n_air R_inner cavity_thickness,
         mk_surface n_air n_plexi PInf partition_thickness,
         mk_surface n_plexi n_air PInf cavity_thickness,
         mk_surface n_air n_plexi (fneg R_inner) wall_thickness,
         mk_surface n_plexi n_air (fneg R_outer) (Fin 0)]),
      (''one_filled'',
        [mk_surface n_air n_plexi R_outer wall_thickness,
         mk_surface n_plexi n_air R_inner cavity_thickness,
         mk_surface n_air n_plexi PInf partition_thickness,
         mk_surface n_plexi n_water PInf cavity_thickness,
         mk_surface n_water n_plexi (fneg R_inner) wall_thickness,
         mk_surface n_plexi n_air (fneg R_outer) (Fin 0)]),
      (''both_filled'',
        [mk_surface n_air n_plexi R_outer wall_thickness,
         mk_surface n_plexi n_water R_inner cavity_thickness,
         mk_surface n_water n_plexi PInf partition_thickness,
         mk_surface n_plexi n_water PInf cavity_thickness,
         mk_surface n_water n_plexi (fneg R_inner) wall_thickness,
         mk_surface n_plexi n_air (fneg R_outer) (Fin 0)])]"

section \<open>Evaluation and fitting\<close>

text \<open>The dictionary comprehension of \<^verbatim>\<open>predict_focals\<close>, over the items in order.\<close>

fun trace_items ::
  "(string \<times> surface list) list \<Rightarrow> error + (string \<times> pyfloat option) list" where
  "trace_items [] = Inr []"
| "trace_items ((name, sys) # rest) =
     (case trace_system sys of
        Inl e \<Rightarrow> Inl e
      | Inr f \<Rightarrow>
          (case trace_items rest of
             Inl e \<Rightarrow> Inl e
           | Inr fs \<Rightarrow> Inr ((name, f) # fs)))"

definition predict_focals :: "pyfloat \<Rightarrow> error + (string \<times> pyfloat option) list" where
  "predict_focals n_water = trace_items (build_systems n_water)"

text \<open>
  The loop of \<^verbatim>\<open>error_function\<close> over \<^verbatim>\<open>f_measured.items()\<close>: a missing key raises
  \<^verbatim>\<open>KeyError\<close>, and \<^verbatim>\<open>abs(None)\<close> raises \<^verbatim>\<open>TypeError\<close>.
\<close>

fun err_loop ::
  "(string \<times> pyfloat option) list \<Rightarrow> (string \<times> pyfloat) list \<Rightarrow> pyfloat \<Rightarrow> error + pyfloat" where
  "err_loop focals [] err = Inr err"
| "err_loop focals ((key, f_meas) # rest) err =
     (case map_of focals key of
        None \<Rightarrow> Inl KeyError
      | Some None \<Rightarrow> Inl TypeError
      | Some (Some f_model) \<Rightarrow>
          (case fdiv (fsub (fabs f_model) (fabs f_meas)) f_meas of
             Inl e \<Rightarrow> Inl e
           | Inr q \<Rightarrow>
               (case fpow2 q of
                  Inl e \<Rightarrow> Inl e
                | Inr sq \<Rightarrow> err_loop focals rest (fadd err sq))))"

definition error_function :: "pyfloat \<Rightarrow> error + pyfloat" where
  "error_function n_water =
     (case predict_focals n_water of
        Inl e \<Rightarrow> Inl e
      | Inr focals \<Rightarrow> err_loop focals f_measured (Fin 0))"

text \<open>The module's initial guess for the index of the fill liquid.\<close>

definition n_water :: pyfloat where
  "n_water = Fin (1333 / 1000)"

section \<open>Auxiliary notions for the statements and proofs\<close>


fun is_finite :: "fval \<Rightarrow> bool" where
  "is_finite (Finite a) = True"
| "is_finite NegZero = True"
| "is_finite _ = False"

text \<open>The relative error of the specification, \<open>(|predicted| - |measured|) / measured\<close>.\<close>

definition rel_error :: "real \<Rightarrow> real \<Rightarrow> real" where
  "rel_error predicted measured = (\<bar>predicted\<bar> - \<bar>measured\<bar>) / measured"

text \<open>
  An object distance that is not nan and is a \<^verbatim>\<open>numpy.float64\<close> or an infinity; a focal
  length that is not nan and is a \<^verbatim>\<open>numpy.float64\<close> or the plain float that the last
  surface gives for an object at infinity; a number that is neither nan nor negative.
\<close>

definition good :: "pyfloat \<Rightarrow> bool" where
  "good v \<longleftrightarrow> \<not> is_nan (fval_of v) \<and> (class_of v = NpFloat64 \<or> is_inf (fval_of v))"

definition last_ok :: "pyfloat \<Rightarrow> bool" where
  "last_ok v \<longleftrightarrow> \<not> is_nan (fval_of v) \<and> (class_of v = NpFloat64 \<or> v = Fin (30000 / 491))"

definition nonneg :: "pyfloat \<Rightarrow> bool" where
  "nonneg v \<longleftrightarrow> \<not> is_nan (fval_of v) \<and> \<not> negative (fval_of v)"

text \<open>
  A surface with positive finite indices of which one is a \<^verbatim>\<open>numpy.float64\<close>, a plain
  radius that is infinite or finite and nonzero, and a plain finite thickness.
\<close>

definition np_surface :: "surface \<Rightarrow> bool" where
  "np_surface surf \<longleftrightarrow>
     (\<exists>ca a cb b vr d.
        n1 surf = Num ca (Finite a) \<and> n2 surf = Num cb (Finite b) \<and> 0 < a \<and> 0 < b
        \<and> (ca = NpFloat64 \<or> cb = NpFloat64)
        \<and> R surf = Num PyFloat vr \<and> (is_inf vr \<or> (\<exists>rr. vr = Finite rr \<and> rr \<noteq> 0))
        \<and> t surf = Fin d)"

lemmas consts_defs = n_air_def n_plexi_def R_outer_def R_inner_def wall_thickness_def
  partition_thickness_def cavity_thickness_def

lemmas arith_defs = fsub_def vmul_def vdiv_def join_def zero_of_def inf_of_def

lemmas eval_defs = predict_focals_def build_systems_def trace_system_def mk_surface_def
  refract_def arith_defs consts_defs

section \<open>Doubles and squares in range\<close>







lemma square_overflows_0 [simp]: "\<not> square_overflows 0"
  by (simp add: square_overflows_def)

lemma square_small:
  assumes "\<bar>a\<bar> \<le> 1"
  shows "\<not> square_overflows a"
proof -
  from assms have "a ^ 2 \<le> 1"
    by (simp add: abs_square_le_1)
  moreover have "(1::real) < 2 ^ 1024 - 2 ^ 970"
    by simp
  ultimately show ?thesis
    by (simp add: square_overflows_def)
qed

lemma join_plain: "join PyFloat c = c" "join c PyFloat = c"
  by (cases c; simp add: join_def)+

section \<open>The tracer returns a number on a non-empty system\<close>

text \<open>On a non-empty list the loop reaches its last index, so it never falls through to \<^verbatim>\<open>None\<close>.\<close>

lemma trace_loop_returns_float:
  assumes "surfs \<noteq> []" and "trace_loop (i + length surfs) i surfs s = Inr v"
  shows "v \<noteq> None"
  using assms
proof (induction surfs arbitrary: i s)
  case Nil
  then show ?case by simp
next
  case (Cons surf rest)
  show ?case
  proof (cases rest)
    case Nil
    with Cons.prems(2) show ?thesis
      by (auto split: sum.splits)
  next
    case (Cons x xs)
    then have ne: "rest \<noteq> []" by simp
    from Cons.prems(2) obtain s' where
      "trace_loop (Suc i + length rest) (Suc i) rest (fsub (t surf) s') = Inr v"
      using ne by (auto split: sum.splits if_splits)
    with ne show ?thesis by (rule Cons.IH)
  qed
qed

lemma trace_system_returns_float:
  assumes "surfs \<noteq> []" and "trace_system surfs = Inr v"
  shows "\<exists>p. v = Some p"
proof -
  from assms(2) have "trace_loop (0 + length surfs) 0 surfs PInf = Inr v"
    by (simp add: trace_system_def)
  with assms(1) have "v \<noteq> None"
    by (rule trace_loop_returns_float)
  then show ?thesis by auto
qed

lemma predict_focals_shape:
  assumes "predict_focals n = Inr focals"
  shows "\<exists>pe po pb. focals =
     [(''empty'', Some pe), (''one_filled'', Some po), (''both_filled'', Some pb)]"
proof -
  from assms obtain ve vo vb where
    e: "trace_system (snd (build_systems n ! 0)) = Inr ve"
    and o: "trace_system (snd (build_systems n ! 1)) = Inr vo"
    and b: "trace_system (snd (build_systems n ! 2)) = Inr vb"
    and f: "focals = [(''empty'', ve), (''one_filled'', vo), (''both_filled'', vb)]"
    by (auto simp: predict_focals_def build_systems_def split: sum.splits)
  have ne: "snd (build_systems n ! 0) \<noteq> []" "snd (build_systems n ! 1) \<noteq> []"
    "snd (build_systems n ! 2) \<noteq> []"
    by (simp_all add: build_systems_def)
  from trace_system_returns_float [OF ne(1) e] trace_system_returns_float [OF ne(2) o]
    trace_system_returns_float [OF ne(3) b] f
  show ?thesis by auto
qed

section \<open>One term of the error sum\<close>

lemma err_term:
  assumes "is_finite v" and "m \<noteq> 0" and "am = \<bar>m\<bar>"
    and "\<not> square_overflows (rel_error (real_of v) m)"
  shows "(case fdiv (fsub (Num c (vabs v)) (Fin am)) (Fin m) of
            Inl e \<Rightarrow> Inl e
          | Inr q \<Rightarrow> (case fpow2 q of Inl e \<Rightarrow> Inl e | Inr sq \<Rightarrow> K sq))
         = K (Num c (Finite ((rel_error (real_of v) m) ^ 2)))"
  using assms
  by (cases v; cases c) (auto simp: arith_defs rel_error_def)

lemma nonneg_fadd:
  assumes "nonneg u" and "nonneg v"
  shows "nonneg (fadd u v)"
proof -
  obtain c x d y where "u = Num c x" "v = Num d y"
    by (cases u; cases v) auto
  with assms show ?thesis
    by (cases x; cases y) (auto simp: nonneg_def)
qed

lemma fpow2_numpy:
  "\<not> is_nan x \<Longrightarrow> \<exists>sq. fpow2 (Num NpFloat64 x) = Inr sq \<and> nonneg sq"
  by (cases x) (auto simp: nonneg_def)

lemma err_term_numpy:
  assumes "\<not> is_nan x" and "0 < m"
  shows "\<exists>q sq. fdiv (fsub (fabs (Num NpFloat64 x)) (Fin m)) (Fin m) = Inr q
                \<and> fpow2 q = Inr sq \<and> nonneg sq"
proof -
  from assms obtain y where
    "fdiv (fsub (fabs (Num NpFloat64 x)) (Fin m)) (Fin m) = Inr (Num NpFloat64 y)"
    and "\<not> is_nan y"
    by (cases x) (auto simp: arith_defs)
  with fpow2_numpy [of y] show ?thesis
    by auto
qed

lemma err_term_last_ok:
  assumes "last_ok p" and "m = 132 \<or> m = 55"
  shows "\<exists>q sq. fdiv (fsub (fabs p) (Fin m)) (Fin m) = Inr q \<and> fpow2 q = Inr sq \<and> nonneg sq"
proof (cases "class_of p = NpFloat64")
  case True
  then obtain x where "p = Num NpFloat64 x"
    by (cases p) auto
  with assms err_term_numpy [of x m] show ?thesis
    by (auto simp: last_ok_def)
next
  case False
  with assms(1) have "p = Fin (30000 / 491)"
    by (simp add: last_ok_def)
  with assms(2) show ?thesis
    by (auto simp: arith_defs nonneg_def square_small)
qed

section \<open>Tracing with a numpy fill index\<close>

lemma refract_numpy_index:
  assumes "0 < a" and "0 < b" and "ca = NpFloat64 \<or> cb = NpFloat64"
    and "\<not> is_nan vs" and "is_inf vr \<or> (\<exists>rr. vr = Finite rr \<and> rr \<noteq> 0)"
  shows "\<exists>v. refract (Num ca (Finite a)) (Num cb (Finite b)) (Num PyFloat vr) (Num cs vs) = Inr v
             \<and> good v"
proof -
  from assms(1,2) have pos: "0 < b / a" "\<not> b / a < 0" "a \<noteq> 0" "b \<noteq> 0"
    by (simp_all add: not_less)
  show ?thesis
    using assms pos
    by (cases vs; cases vr) (auto simp: refract_def arith_defs good_def)
qed

lemma translate_good:
  assumes "good v"
  shows "good (fsub (Fin d) v)"
proof -
  obtain c x where v: "v = Num c x" by (cases v)
  with assms show ?thesis
    by (cases x) (auto simp: good_def arith_defs)
qed

lemma good_not_nan: "good v \<Longrightarrow> \<not> is_nan (fval_of v)"
  by (simp add: good_def)

lemma refract_last_surface:
  assumes "good s"
  shows "\<exists>v. refract n_plexi n_air (fneg R_outer) s = Inr v \<and> last_ok v"
proof -
  obtain c x where s: "s = Num c x" by (cases s)
  with assms show ?thesis
    by (cases x; cases c) (auto simp: good_def last_ok_def refract_def arith_defs consts_defs)
qed

lemma np_surfaceI:
  assumes "0 < a" and "0 < b" and "ca = NpFloat64 \<or> cb = NpFloat64"
    and "is_inf vr \<or> (\<exists>rr. vr = Finite rr \<and> rr \<noteq> 0)"
  shows "np_surface (mk_surface (Num ca (Finite a)) (Num cb (Finite b)) (Num PyFloat vr) (Fin d))"
  using assms unfolding np_surface_def mk_surface_def by simp

lemma trace_loop_numpy:
  assumes "\<forall>surf \<in> set As. np_surface surf" and "As \<noteq> []" and "\<not> is_nan (fval_of s)"
  shows "\<exists>v. trace_loop (i + length As + 1) i
               (As @ [mk_surface n_plexi n_air (fneg R_outer) (Fin 0)]) s = Inr (Some v)
             \<and> last_ok v"
  using assms
proof (induction As arbitrary: i s)
  case Nil
  then show ?case by simp
next
  case (Cons A rest)
  from Cons.prems(1) obtain ca a cb b vr d where
    A: "n1 A = Num ca (Finite a)" "n2 A = Num cb (Finite b)" "R A = Num PyFloat vr"
      "t A = Fin d"
    and h: "0 < a" "0 < b" "ca = NpFloat64 \<or> cb = NpFloat64"
      "is_inf vr \<or> (\<exists>rr. vr = Finite rr \<and> rr \<noteq> 0)"
    by (auto simp: np_surface_def)
  obtain cs vs where s: "s = Num cs vs" by (cases s)
  with Cons.prems(3) have "\<not> is_nan vs" by simp
  from refract_numpy_index [OF h(1,2,3) this h(4)] obtain v where
    v: "refract (Num ca (Finite a)) (Num cb (Finite b)) (Num PyFloat vr) (Num cs vs) = Inr v"
    and gv: "good v"
    by blast
  from gv have gs: "good (fsub (Fin d) v)"
    by (rule translate_good)
  show ?case
  proof (cases "rest = []")
    case True
    from refract_last_surface [OF gs] obtain w where
      "refract n_plexi n_air (fneg R_outer) (fsub (Fin d) v) = Inr w" and "last_ok w"
      by blast
    with True A s v show ?thesis
      by (simp add: mk_surface_def)
  next
    case False
    from Cons.prems(1) have "\<forall>surf \<in> set rest. np_surface surf" by simp
    from Cons.IH [OF this False good_not_nan [OF gs], of "Suc i"] obtain w where
      "trace_loop (Suc i + length rest + 1) (Suc i)
         (rest @ [mk_surface n_plexi n_air (fneg R_outer) (Fin 0)]) (fsub (Fin d) v) = Inr (Some w)"
      and "last_ok w"
      by blast
    with A s v show ?thesis
      by simp
  qed
qed

text \<open>The surfaces before the fill liquid have plain constants and are traced once and for all.\<close>

lemma one_filled_prefix:
  assumes "rest \<noteq> []"
  shows "trace_system
     (mk_surface n_air n_plexi R_outer wall_thickness #
      mk_surface n_plexi n_air R_inner cavity_thickness #
      mk_surface n_air n_plexi PInf partition_thickness # rest)
     = trace_loop (3 + length rest) 3 rest (Fin (- (598517789 / 491000)))"
  using assms
  by (simp add: trace_system_def mk_surface_def refract_def arith_defs consts_defs
      numeral_3_eq_3)

lemma both_filled_prefix:
  assumes "rest \<noteq> []"
  shows "trace_system (mk_surface n_air n_plexi R_outer wall_thickness # rest)
     = trace_loop (1 + length rest) 1 rest (Fin (- (43257 / 491)))"
  using assms
  by (simp add: trace_system_def mk_surface_def refract_def arith_defs consts_defs)

lemma trace_one_filled_numpy:
  assumes "0 < x"
  shows "\<exists>v. trace_system
     [mk_surface n_air n_plexi R_outer wall_thickness,
      mk_surface n_plexi n_air R_inner cavity_thickness,
      mk_surface n_air n_plexi PInf partition_thickness,
      mk_surface n_plexi (Num NpFloat64 (Finite x)) PInf cavity_thickness,
      mk_surface (Num NpFloat64 (Finite x)) n_plexi (fneg R_inner) wall_thickness,
      mk_surface n_plexi n_air (fneg R_outer) (Fin 0)] = Inr (Some v) \<and> last_ok v"
proof -
  define As where "As =
     [mk_surface n_plexi (Num NpFloat64 (Finite x)) PInf cavity_thickness,
      mk_surface (Num NpFloat64 (Finite x)) n_plexi (fneg R_inner) wall_thickness]"
  have np: "\<forall>surf \<in> set As. np_surface surf"
    using assms by (simp add: As_def consts_defs np_surfaceI)
  have ne: "As \<noteq> []" and len: "length As = 2"
    by (simp_all add: As_def)
  have nn: "\<not> is_nan (fval_of (Fin (- (598517789 / 491000))))"
    by simp
  from trace_loop_numpy [OF np ne nn, of 3] obtain v where
    v: "trace_loop 6 3 (As @ [mk_surface n_plexi n_air (fneg R_outer) (Fin 0)])
          (Fin (- (598517789 / 491000))) = Inr (Some v)" and ok: "last_ok v"
    by (auto simp: len)
  have "trace_system
     (mk_surface n_air n_plexi R_outer wall_thickness #
      mk_surface n_plexi n_air R_inner cavity_thickness #
      mk_surface n_air n_plexi PInf partition_thickness #
      (As @ [mk_surface n_plexi n_air (fneg R_outer) (Fin 0)])) = Inr (Some v)"
    using v by (subst one_filled_prefix) (simp_all add: len)
  then show ?thesis
    using ok by (auto simp: As_def)
qed

lemma trace_both_filled_numpy:
  assumes "0 < x"
  shows "\<exists>v. trace_system
     [mk_surface n_air n_plexi R_outer wall_thickness,
      mk_surface n_plexi (Num NpFloat64 (Finite x)) R_inner cavity_thickness,
      mk_surface (Num NpFloat64 (Finite x)) n_plexi PInf partition_thickness,
      mk_surface n_plexi (Num NpFloat64 (Finite x)) PInf cavity_thickness,
      mk_surface (Num NpFloat64 (Finite x)) n_plexi (fneg R_inner) wall_thickness,
      mk_surface n_plexi n_air (fneg R_outer) (Fin 0)] = Inr (Some v) \<and> last_ok v"
proof -
  define As where "As =
     [mk_surface n_plexi (Num NpFloat64 (Finite x)) R_inner cavity_thickness,
      mk_surface (Num NpFloat64 (Finite x)) n_plexi PInf partition_thickness,
      mk_surface n_plexi (Num NpFloat64 (Finite x)) PInf cavity_thickness,
      mk_surface (Num NpFloat64 (Finite x)) n_plexi (fneg R_inner) wall_thickness]"
  have np: "\<forall>surf \<in> set As. np_surface surf"
    using assms by (simp add: As_def consts_defs np_surfaceI)
  have ne: "As \<noteq> []" and len: "length As = 4"
    by (simp_all add: As_def)
  have nn: "\<not> is_nan (fval_of (Fin (- (43257 / 491))))"
    by simp
  from trace_loop_numpy [OF np ne nn, of 1] obtain v where
    v: "trace_loop 6 1 (As @ [mk_surface n_plexi n_air (fneg R_outer) (Fin 0)])
          (Fin (- (43257 / 491))) = Inr (Some v)" and ok: "last_ok v"
    by (auto simp: len)
  have "trace_system
     (mk_surface n_air n_plexi R_outer wall_thickness #
      (As @ [mk_surface n_plexi n_air (fneg R_outer) (Fin 0)])) = Inr (Some v)"
    using v by (subst both_filled_prefix) (simp_all add: len)
  then show ?thesis
    using ok by (auto simp: As_def)
qed

section \<open>The empty container and two evaluations\<close>

lemma trace_empty_system:
  "trace_system
     [mk_surface n_air n_plexi R_outer wall_thickness,
      mk_surface n_plexi n_air R_inner cavity_thickness,
      mk_surface n_air n_plexi PInf partition_thickness,
      mk_surface n_plexi n_air PInf cavity_thickness,
      mk_surface n_air n_plexi (fneg R_inner) wall_thickness,
      mk_surface n_plexi n_air (fneg R_outer) (Fin 0)]
   = Inr (Some (Fin (- (129148695696750 / 294113315399))))"
  by (simp add: trace_system_def mk_surface_def refract_def arith_defs consts_defs)

lemma predict_focals_empty:
  "predict_focals n = Inr f \<Longrightarrow>
     map_of f ''empty'' = Some (Some (Fin (- (129148695696750 / 294113315399))))"
  unfolding predict_focals_def build_systems_def
  by (auto simp add: trace_empty_system split: sum.splits)

lemma predict_focals_1333:
  "predict_focals (Fin (1333 / 1000)) =
     Inr [(''empty'', Some (Fin (- (129148695696750 / 294113315399)))),
          (''one_filled'', Some (Fin (333505011622897470000 / 3141173307169895399))),
          (''both_filled'', Some (Fin (11048580207638816250 / 329973427222194587)))]"
  by (simp add: eval_defs)

lemma predict_focals_1491:
  "predict_focals (Fin (1491 / 1000)) =
     Inr [(''empty'', Some (Fin (- (129148695696750 / 294113315399)))),
          (''one_filled'', Some (Fin (6127567890000 / 92967051133))),
          (''both_filled'', Some (Fin (18465000 / 1086583)))]"
  by (simp add: eval_defs)

lemma predict_focals_numpy:
  assumes "0 < x"
  shows "\<exists>po pb. predict_focals (Num NpFloat64 (Finite x)) =
      Inr [(''empty'', Some (Fin (- (129148695696750 / 294113315399)))),
           (''one_filled'', Some po), (''both_filled'', Some pb)]
      \<and> last_ok po \<and> last_ok pb"
proof -
  from trace_one_filled_numpy [OF assms] trace_both_filled_numpy [OF assms]
  show ?thesis
    unfolding predict_focals_def build_systems_def
    by (auto simp: trace_empty_system)
qed

lemma error_function_numpy:
  assumes "0 < x"
  shows "\<exists>e. error_function (Num NpFloat64 (Finite x)) = Inr e \<and> nonneg e"
proof -
  from predict_focals_numpy [OF assms] obtain po pb where
    f: "predict_focals (Num NpFloat64 (Finite x)) =
      Inr [(''empty'', Some (Fin (- (129148695696750 / 294113315399)))),
           (''one_filled'', Some po), (''both_filled'', Some pb)]"
    and ok: "last_ok po" "last_ok pb"
    by blast
  from err_term_last_ok [OF ok(1), of 132] obtain qo so where
    o: "fdiv (fsub (fabs po) (Fin 132)) (Fin 132) = Inr qo" "fpow2 qo = Inr so" "nonneg so"
    by auto
  from err_term_last_ok [OF ok(2), of 55] obtain qb sb where
    b: "fdiv (fsub (fabs pb) (Fin 55)) (Fin 55) = Inr qb" "fpow2 qb = Inr sb" "nonneg sb"
    by auto
  define e0 :: real where "e0 = ((129148695696750 / 294113315399 - 500) / (- 500)) ^ 2"
  have e0: "\<not> square_overflows ((129148695696750 / 294113315399 - 500) / (- 500))"
    by (rule square_small) simp
  have "error_function (Num NpFloat64 (Finite x)) = Inr (fadd (fadd (Fin e0) so) sb)"
    using e0 o(1,2) b(1,2)
    by (simp add: error_function_def f f_measured_def arith_defs e0_def)
  moreover have "nonneg (Fin e0)"
    by (simp add: nonneg_def e0_def)
  ultimately show ?thesis
    using o(3) b(3) by (auto intro: nonneg_fadd)
qed

lemma error_function_finite:
  assumes "predict_focals n =
      Inr [(''empty'', Some (Num ce ve)), (''one_filled'', Some (Num co vo)),
           (''both_filled'', Some (Num cb vb))]"
    and "is_finite ve" and "is_finite vo" and "is_finite vb"
    and "\<not> square_overflows (rel_error (real_of ve) (- 500))"
    and "\<not> square_overflows (rel_error (real_of vo) 132)"
    and "\<not> square_overflows (rel_error (real_of vb) 55)"
  shows "error_function n =
              Inr (Num (join (join ce co) cb)
                     (Finite ((rel_error (real_of ve) (- 500)) ^ 2
                              + (rel_error (real_of vo) 132) ^ 2
                              + (rel_error (real_of vb) 55) ^ 2)))"
  using assms
  by (simp add: error_function_def f_measured_def err_term join_plain)

section \<open>The surface refraction\<close>




text \<open>
  C2 (as amended). For finite positive indices, finite nonzero radius and finite nonzero
  object distance with a nonzero denominator, \<^verbatim>\<open>refract\<close> returns a finite nonzero \<open>s'\<close>
  that solves \<open>n2 / s' + n1 / s = (n2 - n1) / R\<close>: the object distance enters with a plus
  sign (distances of real objects are positive, as the tracer's \<open>s = t - s'\<close> has them),
  not with the minus sign of the claim.
\<close>

theorem refract_solves_surface_equation:
  assumes "0 < a" and "0 < b" and "r \<noteq> 0" and "s \<noteq> 0"
    and "(b - a) / (b * r) - a / (b * s) \<noteq> 0"
  shows "\<exists>y. refract (Fin a) (Fin b) (Fin r) (Fin s) = Inr (Fin y) \<and> y \<noteq> 0 \<and>
     b / y + a / s = (b - a) / r"
proof -
  define y where "y = 1 / ((b - a) / (b * r) - a / (b * s))"
  have ret: "refract (Fin a) (Fin b) (Fin r) (Fin s) = Inr (Fin y)"
    using assms by (auto simp add: refract_def arith_defs y_def)
  have nz: "y \<noteq> 0"
    using assms(5) by (simp add: y_def)
  have "b / y = b * ((b - a) / (b * r) - a / (b * s))"
    by (simp add: y_def)
  also have "\<dots> = b * ((b - a) / (b * r)) - b * (a / (b * s))"
    by (simp add: right_diff_distrib)
  also have "b * ((b - a) / (b * r)) = (b - a) / r"
    using assms(2) by simp
  also have "b * (a / (b * s)) = a / s"
    using assms(2) by simp
  finally have eq: "b / y + a / s = (b - a) / r"
    by simp
  from ret nz eq show ?thesis
    by blast
qed

theorem refract_solves_surface_equation_witness:
  "(0::real) < 1 \<and> (0::real) < 2 \<and> (1::real) \<noteq> 0 \<and> (2::real) \<noteq> 0
   \<and> (2 - 1) / (2 * 1) - 1 / (2 * 2) \<noteq> (0::real)
   \<and> (\<exists>y. refract (Fin 1) (Fin 2) (Fin 1) (Fin 2) = Inr (Fin y) \<and> y \<noteq> 0 \<and>
        2 / y + 1 / 2 = (2 - 1) / 1)"
  using refract_solves_surface_equation [of 1 2 1 2] by simp

text \<open>
  The claim C2 as stated fails at \<open>n1 = 1\<close>, \<open>n2 = 2\<close>, \<open>R = 1\<close>, \<open>s = 2\<close>: the denominator
  is \<open>1/4\<close>, \<^verbatim>\<open>refract\<close> returns \<open>s' = 4\<close>, and \<open>n2 / s' - n1 / s = 0\<close> while
  \<open>(n2 - n1) / R = 1\<close>.
\<close>

theorem refract_minus_equation_counterexample:
  "(2 - 1) / (2 * 1) - 1 / (2 * 2) \<noteq> (0::real)
   \<and> refract (Fin 1) (Fin 2) (Fin 1) (Fin 2) = Inr (Fin 4)
   \<and> (2::real) / 4 - 1 / 2 \<noteq> (2 - 1) / 1"
  by (simp add: refract_def arith_defs)

text \<open>
  C7. With an infinite radius of curvature and positive finite indices, \<^verbatim>\<open>refract\<close>
  returns exactly \<open>(n2 / n1) * s\<close> for every finite \<open>s\<close>, and an infinity for an infinite
  \<open>s\<close> (of the same sign as \<open>s\<close>).
\<close>

theorem refract_flat_surface:
  assumes "0 < a" and "0 < b" and "isinf r"
  shows "refract (Fin a) (Fin b) r (Fin s) = Inr (Fin ((b / a) * s)) \<and>
         refract (Fin a) (Fin b) r PInf = Inr PInf \<and>
         refract (Fin a) (Fin b) r NInf = Inr NInf"
proof -
  from assms(1,2) have pos: "0 < b / a" "\<not> b / a < 0"
    by (simp_all add: not_less)
  with assms show ?thesis
    by (auto simp add: refract_def arith_defs)
qed

theorem refract_flat_surface_witness:
  "(0::real) < 1491 / 1000 \<and> (0::real) < 1 \<and> isinf PInf
   \<and> refract (Fin (1491 / 1000)) (Fin 1) PInf (Fin 819) = Inr (Fin ((1 / (1491 / 1000)) * 819))
   \<and> refract (Fin (1491 / 1000)) (Fin 1) PInf PInf = Inr PInf
   \<and> refract (Fin (1491 / 1000)) (Fin 1) PInf NInf = Inr NInf"
  using refract_flat_surface [of "1491 / 1000" 1 PInf 819] by simp

section \<open>The system tracer\<close>

text \<open>
  C8. Tracing a system of exactly one surface gives what \<^verbatim>\<open>refract\<close> gives on that
  surface's parameters with the object at infinity (its float, or its exception), and
  the surface's thickness \<open>t\<close> plays no part: no translation step is applied.
\<close>

theorem trace_single_surface:
  "trace_system [surf] =
     (case refract (n1 surf) (n2 surf) (R surf) PInf of
        Inl e \<Rightarrow> Inl e
      | Inr v \<Rightarrow> Inr (Some v))
   \<and> trace_system [surf\<lparr>t := d\<rparr>] = trace_system [surf]"
  by (simp add: trace_system_def split: sum.splits)

text \<open>
  C10. Tracing the empty sequence of surfaces returns \<^verbatim>\<open>None\<close>: it neither raises nor
  returns a number.
\<close>

theorem trace_empty_sequence:
  "trace_system [] = Inr None"
  by (simp add: trace_system_def)

section \<open>The system builder\<close>

text \<open>
  C5. For every fill index the builder returns exactly the three systems named
  \<^verbatim>\<open>empty\<close>, \<^verbatim>\<open>one_filled\<close> and \<^verbatim>\<open>both_filled\<close>, in this order; each has six surfaces, and
  the \<open>t\<close> of its last surface is 0.
\<close>

theorem build_systems_shape:
  "map (\<lambda>(name, sys). (name, length sys, t (last sys))) (build_systems n) =
     [(''empty'', 6, Fin 0), (''one_filled'', 6, Fin 0), (''both_filled'', 6, Fin 0)]"
  by (simp add: build_systems_def mk_surface_def)

text \<open>
  C6. For every fill index the three systems have the same radii and thicknesses,
  surface by surface, with \<open>+R_inner = 27\<close> on the second surface and \<open>-R_inner = -27\<close> on
  the fifth. The media on the two sides of each surface are: air in both cavities of
  \<^verbatim>\<open>empty\<close>; the fill liquid only between the fourth and the fifth surface of
  \<^verbatim>\<open>one_filled\<close>; the fill liquid in both cavities of \<^verbatim>\<open>both_filled\<close>, where only the
  first surface's entry side and the last surface's exit side are air.
\<close>

theorem build_systems_media:
  "map (\<lambda>(name, sys). map (\<lambda>surf. (R surf, t surf)) sys) (build_systems n) =
     replicate 3
       [(R_outer, wall_thickness), (R_inner, cavity_thickness),
        (PInf, partition_thickness), (PInf, cavity_thickness),
        (fneg R_inner, wall_thickness), (fneg R_outer, Fin 0)]
   \<and> R_inner = Fin 27 \<and> fneg R_inner = Fin (- 27)
   \<and> map (\<lambda>(name, sys). (name, map (\<lambda>surf. (n1 surf, n2 surf)) sys)) (build_systems n) =
       [(''empty'',
          [(n_air, n_plexi), (n_plexi, n_air), (n_air, n_plexi),
           (n_plexi, n_air), (n_air, n_plexi), (n_plexi, n_air)]),
        (''one_filled'',
          [(n_air, n_plexi), (n_plexi, n_air), (n_air, n_plexi),
           (n_plexi, n), (n, n_plexi), (n_plexi, n_air)]),
        (''both_filled'',
          [(n_air, n_plexi), (n_plexi, n), (n, n_plexi),
           (n_plexi, n), (n, n_plexi), (n_plexi, n_air)])]"
  by (simp add: build_systems_def mk_surface_def R_inner_def numeral_3_eq_3)

section \<open>The predictor and the error function\<close>

text \<open>
  C4. With the fill index 1.333 and the geometry constants of the module, the predictor
  returns its map, and the focal length of \<^verbatim>\<open>empty\<close> in it is negative with a magnitude
  in the hundreds of millimetres (between 439 and 440).
\<close>

theorem predict_focals_empty_at_1333:
  "R_outer = Fin 30 \<and> R_inner = Fin 27 \<and> wall_thickness = Fin 3
   \<and> partition_thickness = Fin 2 \<and> cavity_thickness = Fin 26
   \<and> n_plexi = Fin (1491 / 1000) \<and> n_air = Fin 1 \<and> n_water = Fin (1333 / 1000)
   \<and> (\<exists>focals v. predict_focals n_water = Inr focals
        \<and> map_of focals ''empty'' = Some (Some (Fin v))
        \<and> v < 0 \<and> 100 \<le> \<bar>v\<bar> \<and> \<bar>v\<bar> < 1000 \<and> - 440 < v \<and> v < - 439)"
  by (simp add: consts_defs n_water_def predict_focals_1333)

text \<open>
  C9. For every pair of fill indices at which the predictor returns, the two maps hold
  the same focal length under \<^verbatim>\<open>empty\<close>; and the builder's \<^verbatim>\<open>empty\<close> system is the same
  list of surfaces for every fill index.
\<close>

theorem predict_focals_empty_independent:
  assumes "predict_focals m = Inr f" and "predict_focals n = Inr g"
  shows "(\<exists>v. map_of f ''empty'' = Some (Some v) \<and> map_of g ''empty'' = Some (Some v))
         \<and> map_of (build_systems m) ''empty'' = map_of (build_systems n) ''empty''"
  using predict_focals_empty [OF assms(1)] predict_focals_empty [OF assms(2)]
  by (simp add: build_systems_def)

theorem predict_focals_empty_independent_witness:
  "predict_focals (Fin (1333 / 1000)) =
     Inr [(''empty'', Some (Fin (- (129148695696750 / 294113315399)))),
          (''one_filled'', Some (Fin (333505011622897470000 / 3141173307169895399))),
          (''both_filled'', Some (Fin (11048580207638816250 / 329973427222194587)))]
   \<and> predict_focals (Fin (1491 / 1000)) =
     Inr [(''empty'', Some (Fin (- (129148695696750 / 294113315399)))),
          (''one_filled'', Some (Fin (6127567890000 / 92967051133))),
          (''both_filled'', Some (Fin (18465000 / 1086583)))]
   \<and> map_of (build_systems (Fin (1333 / 1000))) ''empty''
       = map_of (build_systems (Fin (1491 / 1000))) ''empty''"
  using predict_focals_empty_independent [OF predict_focals_1333 predict_focals_1491]
    predict_focals_1333 predict_focals_1491
  by simp

text \<open>
  C3 (as amended). Whenever the predictor returns its map, the map holds a number under
  each of the three names; if the three numbers are finite and none of the three
  relative errors \<open>(|predicted| - |measured|) / measured\<close>, divided by the measured value
  (-500, 132, 55), has a square out of the double range, then \<^verbatim>\<open>error_function\<close> returns
  the sum of the three squares, which is not negative. And for every fill index of the
  search interval \<open>[1.0, 1.6]\<close> that is a \<^verbatim>\<open>numpy.float64\<close>, as the optimizer passes it,
  \<^verbatim>\<open>error_function\<close> returns without raising, and its value is neither nan nor negative
  (it may be \<open>+inf\<close>).
\<close>

theorem error_function_sum:
  "f_measured = [(''empty'', Fin (- 500)), (''one_filled'', Fin 132), (''both_filled'', Fin 55)]
   \<and> (predict_focals n = Inr focals \<longrightarrow>
       (\<exists>ce ve co vo cb vb.
          focals = [(''empty'', Some (Num ce ve)), (''one_filled'', Some (Num co vo)),
                    (''both_filled'', Some (Num cb vb))]
          \<and> (is_finite ve \<and> is_finite vo \<and> is_finite vb
              \<and> \<not> square_overflows (rel_error (real_of ve) (- 500))
              \<and> \<not> square_overflows (rel_error (real_of vo) 132)
              \<and> \<not> square_overflows (rel_error (real_of vb) 55)
             \<longrightarrow> error_function n =
                    Inr (Num (join (join ce co) cb)
                           (Finite ((rel_error (real_of ve) (- 500)) ^ 2
                                    + (rel_error (real_of vo) 132) ^ 2
                                    + (rel_error (real_of vb) 55) ^ 2)))
                 \<and> 0 \<le> (rel_error (real_of ve) (- 500)) ^ 2
                          + (rel_error (real_of vo) 132) ^ 2
                          + (rel_error (real_of vb) 55) ^ 2)))
   \<and> (1 \<le> x \<and> x \<le> 16 / 10 \<longrightarrow>
       (\<exists>e. error_function (Num NpFloat64 (Finite x)) = Inr e
            \<and> \<not> is_nan (fval_of e) \<and> \<not> negative (fval_of e)))"
proof (intro conjI impI)
  show "f_measured =
    [(''empty'', Fin (- 500)), (''one_filled'', Fin 132), (''both_filled'', Fin 55)]"
    by (simp add: f_measured_def)
next
  assume ret: "predict_focals n = Inr focals"
  from predict_focals_shape [OF ret] obtain pe po pb where
    f: "focals = [(''empty'', Some pe), (''one_filled'', Some po), (''both_filled'', Some pb)]"
    by blast
  obtain ce ve co vo cb vb where p: "pe = Num ce ve" "po = Num co vo" "pb = Num cb vb"
    by (metis pyfloat.exhaust)
  from ret f p have ret': "predict_focals n =
      Inr [(''empty'', Some (Num ce ve)), (''one_filled'', Some (Num co vo)),
           (''both_filled'', Some (Num cb vb))]"
    by simp
  show "\<exists>ce ve co vo cb vb.
          focals = [(''empty'', Some (Num ce ve)), (''one_filled'', Some (Num co vo)),
                    (''both_filled'', Some (Num cb vb))]
          \<and> (is_finite ve \<and> is_finite vo \<and> is_finite vb
              \<and> \<not> square_overflows (rel_error (real_of ve) (- 500))
              \<and> \<not> square_overflows (rel_error (real_of vo) 132)
              \<and> \<not> square_overflows (rel_error (real_of vb) 55)
             \<longrightarrow> error_function n =
                    Inr (Num (join (join ce co) cb)
                           (Finite ((rel_error (real_of ve) (- 500)) ^ 2
                                    + (rel_error (real_of vo) 132) ^ 2
                                    + (rel_error (real_of vb) 55) ^ 2)))
                 \<and> 0 \<le> (rel_error (real_of ve) (- 500)) ^ 2
                          + (rel_error (real_of vo) 132) ^ 2
                          + (rel_error (real_of vb) 55) ^ 2)"
    using f p error_function_finite [OF ret'] by auto
next
  assume "1 \<le> x \<and> x \<le> 16 / 10"
  then have "0 < x"
    by simp
  from error_function_numpy [OF this]
  show "\<exists>e. error_function (Num NpFloat64 (Finite x)) = Inr e
            \<and> \<not> is_nan (fval_of e) \<and> \<not> negative (fval_of e)"
    by (simp add: nonneg_def)
qed

theorem error_function_sum_witness:
  "predict_focals (Fin (1333 / 1000)) =
     Inr [(''empty'', Some (Fin (- (129148695696750 / 294113315399)))),
          (''one_filled'', Some (Fin (333505011622897470000 / 3141173307169895399))),
          (''both_filled'', Some (Fin (11048580207638816250 / 329973427222194587)))]
   \<and> \<not> square_overflows (rel_error (- (129148695696750 / 294113315399)) (- 500))
   \<and> \<not> square_overflows (rel_error (333505011622897470000 / 3141173307169895399) 132)
   \<and> \<not> square_overflows (rel_error (11048580207638816250 / 329973427222194587) 55)
   \<and> error_function (Fin (1333 / 1000)) =
       Inr (Fin ((rel_error (- (129148695696750 / 294113315399)) (- 500)) ^ 2
                 + (rel_error (333505011622897470000 / 3141173307169895399) 132) ^ 2
                 + (rel_error (11048580207638816250 / 329973427222194587) 55) ^ 2))
   \<and> (1::real) \<le> 1333 / 1000 \<and> (1333::real) / 1000 \<le> 16 / 10
   \<and> (\<exists>e. error_function (Num NpFloat64 (Finite (1333 / 1000))) = Inr e
          \<and> \<not> is_nan (fval_of e) \<and> \<not> negative (fval_of e))"
proof -
  have o: "\<not> square_overflows (rel_error (- (129148695696750 / 294113315399)) (- 500))"
    "\<not> square_overflows (rel_error (333505011622897470000 / 3141173307169895399) 132)"
    "\<not> square_overflows (rel_error (11048580207638816250 / 329973427222194587) 55)"
    by (rule square_small, simp add: rel_error_def)+
  from error_function_sum [of "Fin (1333 / 1000)"
      "[(''empty'', Some (Fin (- (129148695696750 / 294113315399)))),
        (''one_filled'', Some (Fin (333505011622897470000 / 3141173307169895399))),
        (''both_filled'', Some (Fin (11048580207638816250 / 329973427222194587)))]"
      "1333 / 1000"]
    predict_focals_1333 o
  show ?thesis
    by (simp add: join_def)
qed

text \<open>
  The claim C3 as stated fails at the fill index 0: as a plain float it makes the
  refraction into the second cavity of \<^verbatim>\<open>both_filled\<close> divide by \<open>n_water * R_inner = 0\<close>,
  so that \<^verbatim>\<open>error_function\<close> raises \<^verbatim>\<open>ZeroDivisionError\<close>; as a \<^verbatim>\<open>numpy.float64\<close> it makes
  the same refraction subtract two equal infinities, so that \<^verbatim>\<open>error_function\<close> returns
  nan, which is not a non-negative number.
\<close>

theorem error_function_counterexample:
  "error_function (Fin 0) = Inl ZeroDivisionError
   \<and> error_function (Num NpFloat64 (Finite 0)) = Inr (Num NpFloat64 NotANumber)"
  by (simp add: error_function_def f_measured_def eval_defs square_small)

end
